theory Spec2Isabelle
  imports Main
begin

section \<open>Data model\<close>

text \<open>
  The module under verification is \<^verbatim>\<open>packages/backend-core/src/events/identification.ts\<close>.
  Its records are JavaScript objects; a property that may be missing (or \<^verbatim>\<open>undefined\<close>) is an
  \<open>option\<close> here.
\<close>

datatype Hosting = SELF | CLOUD

text \<open>
  Modelled from the spec: the enum \<^verbatim>\<open>IdentityType\<close> is declared in \<^verbatim>\<open>@budibase/types\<close>, which is
  not among the sources. At run time its members are strings, and the ambient identity context
  may carry any string. The spec fixes two of the three values through
  \<^verbatim>\<open>formatDistinctId("abc", INSTALLATION) == "$installation_abc"\<close> and
  \<^verbatim>\<open>formatDistinctId("abc", TENANT) == "$tenant_abc"\<close>; of the value of \<^verbatim>\<open>USER\<close> it says only that
  it is a third member of the closed set \<^verbatim>\<open>{INSTALLATION, TENANT, USER}\<close>, and the proofs use
  only that the three differ.
\<close>

type_synonym IdentityType = string

definition INSTALLATION :: IdentityType where
  "INSTALLATION = ''installation''"

definition TENANT :: IdentityType where
  "TENANT = ''tenant''"

definition USER :: IdentityType where
  "USER = ''user''"

text \<open>
  One record type for every object handed to the event processors: \<^verbatim>\<open>Identity\<close>,
  \<^verbatim>\<open>UserIdentity\<close>, \<^verbatim>\<open>InstallationGroup\<close> and \<^verbatim>\<open>TenantGroup\<close>. The source builds a group and
  then passes \<^verbatim>\<open>{ ...group, id: ... }\<close> to \<^verbatim>\<open>identify\<close>, so the same object shape travels through
  both calls. A property the object literal does not mention is \<open>None\<close>.
\<close>

record Identity =
  identity_id :: string
  identity_type :: IdentityType
  hosting :: Hosting
  installationId :: "string option"
  tenantId :: "string option"
  verified :: "bool option"
  accountHolder :: "bool option"
  providerType :: "string option"
  builder :: "bool option"
  admin :: "bool option"
  version :: "string option"
  profession :: "string option"
  companySize :: "string option"

type_synonym Group = Identity

text \<open>
  \<^verbatim>\<open>Account\<close>, with the properties of its refinements \<^verbatim>\<open>CloudAccount\<close> (\<^verbatim>\<open>budibaseUserId\<close>) and
  \<^verbatim>\<open>SSOAccount\<close> (\<^verbatim>\<open>providerType\<close>) as optional properties.
\<close>

record Account =
  accountId :: string
  acc_tenantId :: string
  acc_hosting :: Hosting
  acc_verified :: bool
  acc_profession :: "string option"
  acc_size :: "string option"
  acc_providerType :: "string option"
  budibaseUserId :: "string option"

record GlobalRole =
  role_global :: bool

text \<open>\<^verbatim>\<open>User\<close>: the source reads \<^verbatim>\<open>user._id as string\<close>, so \<open>user_id\<close> is a string.\<close>

record User =
  user_id :: string
  user_tenantId :: string
  user_builder :: "GlobalRole option"
  user_admin :: "GlobalRole option"
  user_providerType :: "string option"

text \<open>
  The ambient identity context (\<^verbatim>\<open>identityCtx.getIdentity()\<close>): its \<^verbatim>\<open>_id\<close>, its \<^verbatim>\<open>type\<close> and, for
  a \<^verbatim>\<open>UserContext\<close>, the optional \<^verbatim>\<open>account\<close>.
\<close>

record IdentityContext =
  ctx_id :: string
  ctx_type :: IdentityType
  ctx_account :: "Account option"

record Env =
  SELF_HOSTED :: bool
  SERVICE :: "string option"

record Install =
  installId :: string

text \<open>
  The settings document. Only \<^verbatim>\<open>config.config.uniqueTenantId\<close> is read or written by the
  module; all the other properties of the document and of its inner \<^verbatim>\<open>config\<close> object are the
  extension parts of the two records (type variables \<open>'i\<close> and \<open>'d\<close>).
\<close>

record SettingsInnerConfig =
  uniqueTenantId :: "string option"

record 'i SettingsConfig =
  config :: "'i SettingsInnerConfig_scheme"

type_synonym ('i, 'd) settings_doc = "('i, 'd) SettingsConfig_scheme"

datatype Configs = SETTINGS

datatype CacheKeys = UNIQUE_TENANT_ID

datatype TTL = ONE_DAY

datatype Timestamp = TimeString string | TimeNumber int

datatype error = Error string

text \<open>The calls received by the event processors, in order.\<close>

datatype sink_call =
    SinkIdentify Identity "Timestamp option"
  | SinkIdentifyGroup Group "Timestamp option"

text \<open>The calls made to the TTL cache and to the tenant's global database, in order.\<close>

datatype ('i, 'd) io_call =
    CacheGet string CacheKeys
  | CacheStore string CacheKeys string TTL
  | DbGet string Configs
  | DbPut string "('i, 'd) settings_doc"

text \<open>
  Everything the module reads or changes: the environment, the ambient identity and tenant
  context, the installation record, the version of \<^verbatim>\<open>package.json\<close>, the source of random
  identifiers (\<open>id_source n\<close> is the \<open>n\<close>-th identifier drawn), the cache (keyed by tenant scope
  and cache key), the settings document of each tenant, and the two logs.
\<close>

record ('i, 'd) world =
  env :: Env
  ctx_identity :: "IdentityContext option"
  ctx_tenantId :: string
  install :: Install
  pkg_version :: string
  id_source :: "nat \<Rightarrow> string"
  id_count :: nat
  cache :: "string \<times> CacheKeys \<rightharpoonup> string"
  store :: "string \<Rightarrow> ('i, 'd) settings_doc"
  io :: "('i, 'd) io_call list"
  sink :: "sink_call list"

section \<open>Collaborators\<close>

text \<open>
  Modelled from the spec: \<^verbatim>\<open>context.getTenantId\<close> and \<^verbatim>\<open>context.doInTenant\<close> are not among the
  sources. "\<^verbatim>\<open>getTenantId() -> string\<close> and \<^verbatim>\<open>doInTenant(tenantId, fn)\<close> -> awaited result of
  \<^verbatim>\<open>fn\<close> executed with that tenant active"; the override "is visible only for the duration of
  \<^verbatim>\<open>fn\<close> and is restored afterward".
\<close>

definition getTenantId :: "('i, 'd) world \<Rightarrow> string" where
  "getTenantId w = ctx_tenantId w"

definition doInTenant ::
  "string \<Rightarrow> (('i, 'd) world \<Rightarrow> 'a \<times> ('i, 'd) world) \<Rightarrow> ('i, 'd) world \<Rightarrow> 'a \<times> ('i, 'd) world" where
  "doInTenant t fn w =
     (let (r, w1) = fn (w\<lparr>ctx_tenantId := t\<rparr>)
      in (r, w1\<lparr>ctx_tenantId := ctx_tenantId w\<rparr>))"

text \<open>
  Modelled from the spec: \<^verbatim>\<open>withCache\<close> (\<^verbatim>\<open>cache/generic\<close>) is not among the sources. "Look up a
  process-wide TTL cache keyed by a constant cache key scoped implicitly to the current tenant
  scope. On cache miss: [run the producer,] cache [the value] and return it. On cache hit
  within TTL: return the cached value without touching the store." Time is not modelled:
  expiry and process restart are the operation \<open>evict\<close>.
\<close>

definition withCache ::
  "CacheKeys \<Rightarrow> TTL \<Rightarrow> (('i, 'd) world \<Rightarrow> string \<times> ('i, 'd) world) \<Rightarrow> ('i, 'd) world
     \<Rightarrow> string \<times> ('i, 'd) world" where
  "withCache key ttl fetchFn w =
     (let t = ctx_tenantId w;
          w1 = w\<lparr>io := io w @ [CacheGet t key]\<rparr>
      in case cache w1 (t, key) of
           Some cachedValue \<Rightarrow> (cachedValue, w1)
         | None \<Rightarrow>
             (let (fetchedValue, w2) = fetchFn w1
              in (fetchedValue,
                  w2\<lparr>cache := (cache w2)((t, key) \<mapsto> fetchedValue),
                     io := io w2 @ [CacheStore t key fetchedValue ttl]\<rparr>)))"


text \<open>
  Modelled from the spec: \<^verbatim>\<open>context.getGlobalDB\<close>, \<^verbatim>\<open>dbUtils.getScopedFullConfig\<close> and \<^verbatim>\<open>db.put\<close>
  are not among the sources. The database handle is the tenant whose scope is active;
  "\<^verbatim>\<open>getScopedFullConfig(db, {type: SETTINGS}) -> SettingsConfig\<close>" reads that tenant's
  settings document, "\<^verbatim>\<open>db.put(doc) -> ack\<close>" persists the document.
\<close>

definition getGlobalDB :: "('i, 'd) world \<Rightarrow> string" where
  "getGlobalDB w = ctx_tenantId w"

definition getScopedFullConfig ::
  "string \<Rightarrow> Configs \<Rightarrow> ('i, 'd) world \<Rightarrow> ('i, 'd) settings_doc \<times> ('i, 'd) world" where
  "getScopedFullConfig db ty w = (store w db, w\<lparr>io := io w @ [DbGet db ty]\<rparr>)"

definition db_put :: "string \<Rightarrow> ('i, 'd) settings_doc \<Rightarrow> ('i, 'd) world \<Rightarrow> ('i, 'd) world" where
  "db_put db doc w = w\<lparr>store := (store w)(db := doc), io := io w @ [DbPut db doc]\<rparr>"

text \<open>
  Modelled from the spec: \<^verbatim>\<open>hashing.newid\<close> is not among the sources; it is the
  "RandomIdGenerator", which yields "a fresh random identifier" at each call.
\<close>

definition newid :: "('i, 'd) world \<Rightarrow> string \<times> ('i, 'd) world" where
  "newid w = (id_source w (id_count w), w\<lparr>id_count := Suc (id_count w)\<rparr>)"

text \<open>
  Modelled from the spec: \<^verbatim>\<open>installation.getInstall\<close> is not among the sources;
  "\<^verbatim>\<open>getInstall() -> { installId }\<close>".
\<close>

definition getInstall :: "('i, 'd) world \<Rightarrow> Install" where
  "getInstall w = install w"

text \<open>
  Modelled from the spec: \<^verbatim>\<open>processors\<close> is not among the sources; the "EventSink" accepts
  \<^verbatim>\<open>identify(identity, timestamp?)\<close> and \<^verbatim>\<open>identifyGroup(group, timestamp?)\<close>.
\<close>

definition processors_identify ::
  "Identity \<Rightarrow> Timestamp option \<Rightarrow> ('i, 'd) world \<Rightarrow> ('i, 'd) world" where
  "processors_identify identity timestamp w = w\<lparr>sink := sink w @ [SinkIdentify identity timestamp]\<rparr>"

definition processors_identifyGroup ::
  "Group \<Rightarrow> Timestamp option \<Rightarrow> ('i, 'd) world \<Rightarrow> ('i, 'd) world" where
  "processors_identifyGroup grp timestamp w =
     w\<lparr>sink := sink w @ [SinkIdentifyGroup grp timestamp]\<rparr>"

text \<open>
  The truth value JavaScript gives to an optional string in a condition: \<^verbatim>\<open>undefined\<close> and the
  empty string are falsy. The result is the string when it is truthy.
\<close>

definition truthy :: "string option \<Rightarrow> string option" where
  "truthy s = (case s of None \<Rightarrow> None | Some v \<Rightarrow> if v = [] then None else Some v)"

section \<open>The module\<close>

definition identify :: "Identity \<Rightarrow> Timestamp option \<Rightarrow> ('i, 'd) world \<Rightarrow> ('i, 'd) world" where
  "identify identity timestamp w = processors_identify identity timestamp w"

definition identifyGroup :: "Group \<Rightarrow> Timestamp option \<Rightarrow> ('i, 'd) world \<Rightarrow> ('i, 'd) world" where
  "identifyGroup grp timestamp w = processors_identifyGroup grp timestamp w"

definition getHostingFromEnv :: "('i, 'd) world \<Rightarrow> Hosting" where
  "getHostingFromEnv w = (if SELF_HOSTED (env w) then SELF else CLOUD)"

definition isAccountPortal :: "('i, 'd) world \<Rightarrow> bool" where
  "isAccountPortal w = (SERVICE (env w) = Some ''account-portal'')"

definition getInstallationId :: "('i, 'd) world \<Rightarrow> string" where
  "getInstallationId w =
     (if isAccountPortal w then ''account-portal''
      else installId (getInstall w))"

definition formatDistinctId :: "string \<Rightarrow> IdentityType \<Rightarrow> string" where
  "formatDistinctId ident ty =
     (if ty = INSTALLATION \<or> ty = TENANT then ''$'' @ ty @ ''_'' @ ident
      else ident)"

definition getUniqueTenantId :: "string \<Rightarrow> ('i, 'd) world \<Rightarrow> string \<times> ('i, 'd) world" where
  "getUniqueTenantId tenant =
     doInTenant tenant (withCache UNIQUE_TENANT_ID ONE_DAY (\<lambda>w.
       let db = getGlobalDB w;
           (cfg, w1) = getScopedFullConfig db SETTINGS w
       in case truthy (uniqueTenantId (config cfg)) of
            Some u \<Rightarrow> (u, w1)
          | None \<Rightarrow>
              (let (rid, w2) = newid w1;
                   unique = rid @ ''_'' @ tenant;
                   cfg' = cfg\<lparr>config := (config cfg)\<lparr>uniqueTenantId := Some unique\<rparr>\<rparr>;
                   w3 = db_put db cfg' w2
               in (unique, w3))))"

definition getEventTenantId :: "string \<Rightarrow> ('i, 'd) world \<Rightarrow> string \<times> ('i, 'd) world" where
  "getEventTenantId tenant w =
     (if SELF_HOSTED (env w) then getUniqueTenantId tenant w
      else (tenant, w))"

text \<open>The object literal with the properties every identity has; the others are absent.\<close>

definition base_identity :: "string \<Rightarrow> IdentityType \<Rightarrow> Hosting \<Rightarrow> Identity" where
  "base_identity ident ty h =
     \<lparr>identity_id = ident, identity_type = ty, hosting = h,
      installationId = None, tenantId = None, verified = None, accountHolder = None,
      providerType = None, builder = None, admin = None, version = None,
      profession = None, companySize = None\<rparr>"

text \<open>
  \<open>getCurrentIdentity\<close> either returns an identity (\<open>Inr\<close>, with the state it left) or throws
  (\<open>Inl\<close>). Its \<open>USER\<close> branch casts the context to a \<^verbatim>\<open>UserContext\<close> and reads its properties;
  without a context that would be a \<^verbatim>\<open>TypeError\<close>, but the kind is \<open>TENANT\<close> then, so that case is
  never reached.
\<close>

definition getCurrentIdentity :: "('i, 'd) world \<Rightarrow> error + (Identity \<times> ('i, 'd) world)" where
  "getCurrentIdentity w =
     (let identityContext = ctx_identity w;
          identityType = (case identityContext of None \<Rightarrow> TENANT | Some c \<Rightarrow> ctx_type c)
      in if identityType = INSTALLATION then
           (let inst = getInstallationId w;
                h = getHostingFromEnv w
            in Inr ((base_identity (formatDistinctId inst identityType) identityType h)
                      \<lparr>installationId := Some inst\<rparr>, w))
         else if identityType = TENANT then
           (let inst = getInstallationId w;
                (tenant, w1) = getEventTenantId (getTenantId w) w;
                h = getHostingFromEnv w1
            in Inr ((base_identity (formatDistinctId tenant identityType) identityType h)
                      \<lparr>installationId := Some inst, tenantId := Some tenant\<rparr>, w1))
         else if identityType = USER then
           (case identityContext of
              None \<Rightarrow> Inl (Error ''TypeError'')
            | Some userContext \<Rightarrow>
                (let (tenant, w1) = getEventTenantId (getTenantId w) w;
                     inst = getInstallationId w1;
                     h = (case ctx_account userContext of
                            Some account \<Rightarrow> acc_hosting account
                          | None \<Rightarrow> getHostingFromEnv w1)
                 in Inr ((base_identity (ctx_id userContext) identityType h)
                           \<lparr>installationId := Some inst, tenantId := Some tenant\<rparr>, w1)))
         else Inl (Error ''Unknown identity type''))"

definition identifyInstallationGroup ::
  "string \<Rightarrow> Timestamp option \<Rightarrow> ('i, 'd) world \<Rightarrow> ('i, 'd) world" where
  "identifyInstallationGroup installId' timestamp w =
     (let ident = installId';
          ty = INSTALLATION;
          h = getHostingFromEnv w;
          ver = pkg_version w;
          grp = (base_identity ident ty h)\<lparr>version := Some ver\<rparr>;
          w1 = identifyGroup grp timestamp w
      in identify (grp\<lparr>identity_id := ''$'' @ ty @ ''_'' @ ident\<rparr>) timestamp w1)"

definition identifyTenantGroup ::
  "string \<Rightarrow> Account option \<Rightarrow> Timestamp option \<Rightarrow> ('i, 'd) world \<Rightarrow> ('i, 'd) world" where
  "identifyTenantGroup tenant account timestamp w =
     (let (ident, w1) = getEventTenantId tenant w;
          ty = TENANT;
          inst = getInstallationId w1;
          (h, prof, csize) =
            (case account of
               Some a \<Rightarrow> (acc_hosting a, acc_profession a, acc_size a)
             | None \<Rightarrow> (getHostingFromEnv w1, None, None));
          grp = (base_identity ident ty h)
                    \<lparr>installationId := Some inst, profession := prof, companySize := csize\<rparr>;
          w2 = identifyGroup grp timestamp w1
      in identify (grp\<lparr>identity_id := ''$'' @ ty @ ''_'' @ ident\<rparr>) timestamp w2)"

definition identifyUser ::
  "User \<Rightarrow> Account option \<Rightarrow> Timestamp option \<Rightarrow> ('i, 'd) world \<Rightarrow> ('i, 'd) world" where
  "identifyUser user account timestamp w =
     (let ident = user_id user;
          (tenant, w1) = getEventTenantId (user_tenantId user) w;
          ty = USER;
          b = (case user_builder user of Some r \<Rightarrow> role_global r | None \<Rightarrow> False);
          a = (case user_admin user of Some r \<Rightarrow> role_global r | None \<Rightarrow> False);
          pt = user_providerType user;
          holder = (case account of
                      Some acc \<Rightarrow> budibaseUserId acc = Some (user_id user)
                    | None \<Rightarrow> False);
          ver = (case account of
                   Some acc \<Rightarrow>
                     if budibaseUserId acc = Some (user_id user) then acc_verified acc else False
                 | None \<Rightarrow> False);
          inst = getInstallationId w1;
          h = (case account of Some acc \<Rightarrow> acc_hosting acc | None \<Rightarrow> getHostingFromEnv w1);
          identity = (base_identity ident ty h)
                       \<lparr>installationId := Some inst, tenantId := Some tenant,
                        verified := Some ver, accountHolder := Some holder,
                        providerType := pt, builder := Some b, admin := Some a\<rparr>
      in identify identity timestamp w1)"

text \<open>
  \<^verbatim>\<open>isSSOAccount\<close> and \<^verbatim>\<open>isCloudAccount\<close> are type guards of \<^verbatim>\<open>@budibase/types\<close>, not among the
  sources: they are parameters of \<open>identifyAccount\<close>.
\<close>

definition identifyAccount ::
  "(Account \<Rightarrow> bool) \<Rightarrow> (Account \<Rightarrow> bool) \<Rightarrow> Account \<Rightarrow> ('i, 'd) world \<Rightarrow> ('i, 'd) world" where
  "identifyAccount isSSOAccount isCloudAccount account w =
     (let ident = accountId account;
          tenant = acc_tenantId account;
          ty = USER;
          pt = (if isSSOAccount account then acc_providerType account else None);
          ver = acc_verified account;
          holder = True;
          h = acc_hosting account;
          inst = getInstallationId w;
          ident = (if isCloudAccount account
                   then (case truthy (budibaseUserId account) of
                           Some u \<Rightarrow> u
                         | None \<Rightarrow> ident)
                   else ident);
          identity = (base_identity ident ty h)
                       \<lparr>installationId := Some inst, tenantId := Some tenant,
                        providerType := pt, verified := Some ver,
                        accountHolder := Some holder\<rparr>
      in identify identity None w)"

section \<open>Observations, invariant and example states\<close>

text \<open>The documents handed to \<^verbatim>\<open>db.put\<close>, in order, with the tenant database that received them.\<close>

fun db_puts :: "('i, 'd) io_call list \<Rightarrow> (string \<times> ('i, 'd) settings_doc) list" where
  "db_puts [] = []"
| "db_puts (DbPut db doc # cs) = (db, doc) # db_puts cs"
| "db_puts (_ # cs) = db_puts cs"

text \<open>The record carried by a call to the event processors.\<close>

fun sink_identity :: "sink_call \<Rightarrow> Identity" where
  "sink_identity (SinkIdentify i _) = i"
| "sink_identity (SinkIdentifyGroup g _) = g"

text \<open>The value a call returned, when it did not throw.\<close>

fun returned :: "error + ('a \<times> 'w) \<Rightarrow> 'a option" where
  "returned (Inl _) = None"
| "returned (Inr (x, _)) = Some x"

text \<open>
  The cache is a memo of the store: an entry for tenant \<open>t\<close> holds the truthy
  \<^verbatim>\<open>uniqueTenantId\<close> of the settings document of \<open>t\<close>. It holds for an empty cache, and
  \<open>evict\<close> and every function of the module keep it (lemmas \<open>cache_coherent_empty\<close>,
  \<open>cache_coherent_evict\<close>, \<open>cache_coherent_getUniqueTenantId\<close>,
  \<open>cache_coherent_getEventTenantId\<close>, \<open>cache_coherent_getCurrentIdentity\<close>,
  \<open>cache_coherent_identify_calls\<close>); only a writer outside the module can break it.
\<close>

definition cache_coherent :: "string \<Rightarrow> ('i, 'd) world \<Rightarrow> bool" where
  "cache_coherent t w =
     (case cache w (t, UNIQUE_TENANT_ID) of
        None \<Rightarrow> True
      | Some v \<Rightarrow> truthy (uniqueTenantId (config (store w t))) = Some v)"

text \<open>
  Example states: a self-hosted deployment with no identity context, an empty cache and no
  unique id persisted yet; the same with a persisted unique id; a cloud deployment; a user
  context; a context of a kind outside the enum.
\<close>

definition world0 :: "(unit, unit) world" where
  "world0 =
     \<lparr>env = \<lparr>SELF_HOSTED = True, SERVICE = None\<rparr>,
      ctx_identity = None,
      ctx_tenantId = ''default'',
      install = \<lparr>installId = ''inst1''\<rparr>,
      pkg_version = ''2.0.0'',
      id_source = (\<lambda>n. ''r'' @ replicate n (CHR ''x'')),
      id_count = 0,
      cache = Map.empty,
      store = (\<lambda>_. \<lparr>config = \<lparr>uniqueTenantId = None\<rparr>\<rparr>),
      io = [],
      sink = []\<rparr>"

definition world_set :: "(unit, unit) world" where
  "world_set = world0\<lparr>store := (\<lambda>_. \<lparr>config = \<lparr>uniqueTenantId = Some ''abc_default''\<rparr>\<rparr>)\<rparr>"



definition world_cloud :: "(unit, unit) world" where
  "world_cloud = world0\<lparr>env := \<lparr>SELF_HOSTED = False, SERVICE = None\<rparr>\<rparr>"

definition world_user :: "(unit, unit) world" where
  "world_user =
     world0\<lparr>ctx_identity := Some \<lparr>ctx_id = ''us_1'', ctx_type = USER, ctx_account = None\<rparr>\<rparr>"

definition world_device :: "(unit, unit) world" where
  "world_device =
     world0\<lparr>ctx_identity := Some \<lparr>ctx_id = ''dev_1'', ctx_type = ''device'', ctx_account = None\<rparr>\<rparr>"

text \<open>
  Example accounts and user, and the two guards used with them: an account counts as a cloud
  account by its hosting, as an SSO account by having a provider type.
\<close>

definition account_self :: Account where
  "account_self =
     \<lparr>accountId = ''acc_1'', acc_tenantId = ''default'', acc_hosting = SELF, acc_verified = True,
      acc_profession = Some ''engineer'', acc_size = Some ''10'', acc_providerType = None,
      budibaseUserId = Some ''us_1''\<rparr>"

definition account_cloud :: Account where
  "account_cloud = account_self\<lparr>acc_hosting := CLOUD\<rparr>"

definition user1 :: User where
  "user1 =
     \<lparr>user_id = ''us_1'', user_tenantId = ''default'',
      user_builder = Some \<lparr>role_global = True\<rparr>, user_admin = None,
      user_providerType = None\<rparr>"

definition hosted_in_cloud :: "Account \<Rightarrow> bool" where
  "hosted_in_cloud a = (acc_hosting a = CLOUD)"

definition has_provider :: "Account \<Rightarrow> bool" where
  "has_provider a = (acc_providerType a \<noteq> None)"

section \<open>The unique tenant id: what one call does\<close>

lemmas collab_defs = doInTenant_def withCache_def getGlobalDB_def getScopedFullConfig_def
  db_put_def newid_def

lemmas eval_defs = getUniqueTenantId_def getEventTenantId_def collab_defs truthy_def
  getTenantId_def getHostingFromEnv_def getInstallationId_def isAccountPortal_def getInstall_def
  Let_def

lemma getUniqueTenantId_hit:
  assumes "cache w (t, UNIQUE_TENANT_ID) = Some v"
  shows "getUniqueTenantId t w = (v, w\<lparr>io := io w @ [CacheGet t UNIQUE_TENANT_ID]\<rparr>)"
  using assms by (simp add: getUniqueTenantId_def collab_defs Let_def)

lemma getUniqueTenantId_miss_set:
  assumes "cache w (t, UNIQUE_TENANT_ID) = None"
    and "truthy (uniqueTenantId (config (store w t))) = Some u"
  shows "getUniqueTenantId t w =
           (u, w\<lparr>cache := (cache w)((t, UNIQUE_TENANT_ID) \<mapsto> u),
                 io := io w @ [CacheGet t UNIQUE_TENANT_ID, DbGet t SETTINGS,
                               CacheStore t UNIQUE_TENANT_ID u ONE_DAY]\<rparr>)"
  using assms by (simp add: getUniqueTenantId_def collab_defs Let_def)

lemma getUniqueTenantId_miss_unset:
  assumes "cache w (t, UNIQUE_TENANT_ID) = None"
    and "truthy (uniqueTenantId (config (store w t))) = None"
  shows "getUniqueTenantId t w =
           (let u = id_source w (id_count w) @ ''_'' @ t;
                doc = (store w t)\<lparr>config := (config (store w t))\<lparr>uniqueTenantId := Some u\<rparr>\<rparr>
            in (u, w\<lparr>id_count := Suc (id_count w),
                     cache := (cache w)((t, UNIQUE_TENANT_ID) \<mapsto> u),
                     store := (store w)(t := doc),
                     io := io w @ [CacheGet t UNIQUE_TENANT_ID, DbGet t SETTINGS, DbPut t doc,
                                   CacheStore t UNIQUE_TENANT_ID u ONE_DAY]\<rparr>))"
  using assms by (simp add: getUniqueTenantId_def collab_defs Let_def)

lemma getUniqueTenantId_cases:
  obtains (hit) v where "cache w (t, UNIQUE_TENANT_ID) = Some v"
  | (miss_set) u where "cache w (t, UNIQUE_TENANT_ID) = None"
      "truthy (uniqueTenantId (config (store w t))) = Some u"
  | (miss_unset) "cache w (t, UNIQUE_TENANT_ID) = None"
      "truthy (uniqueTenantId (config (store w t))) = None"
  by (cases "cache w (t, UNIQUE_TENANT_ID)";
      cases "truthy (uniqueTenantId (config (store w t)))") auto

lemmas getUniqueTenantId_eqs = getUniqueTenantId_hit getUniqueTenantId_miss_set
  getUniqueTenantId_miss_unset

lemma db_puts_append: "db_puts (xs @ ys) = db_puts xs @ db_puts ys"
  by (induction xs rule: db_puts.induct) simp_all

lemma truthy_Some: "truthy s = Some u \<longleftrightarrow> s = Some u \<and> u \<noteq> []"
  by (cases s) (auto simp: truthy_def)

lemma getUniqueTenantId_cached:
  "cache (snd (getUniqueTenantId t w)) (t, UNIQUE_TENANT_ID) = Some (fst (getUniqueTenantId t w))"
  by (cases w t rule: getUniqueTenantId_cases) (simp_all add: getUniqueTenantId_eqs Let_def)

lemma getUniqueTenantId_env: "env (snd (getUniqueTenantId t w)) = env w"
  by (cases w t rule: getUniqueTenantId_cases) (simp_all add: getUniqueTenantId_eqs Let_def)

lemma getUniqueTenantId_ctx_tenantId: "ctx_tenantId (snd (getUniqueTenantId t w)) = ctx_tenantId w"
  by (cases w t rule: getUniqueTenantId_cases) (simp_all add: getUniqueTenantId_eqs Let_def)

subsection \<open>The cache stays a memo of the store\<close>

lemma cache_coherent_empty:
  assumes "cache w = Map.empty"
  shows "cache_coherent t w"
  using assms by (simp add: cache_coherent_def)


lemma cache_coherent_getUniqueTenantId:
  assumes "cache_coherent t' w"
  shows "cache_coherent t' (snd (getUniqueTenantId t w))"
  using assms
  by (cases w t rule: getUniqueTenantId_cases)
     (auto simp: getUniqueTenantId_eqs Let_def cache_coherent_def truthy_def
        split: option.splits if_splits)

lemma cache_coherent_getEventTenantId:
  assumes "cache_coherent t' w"
  shows "cache_coherent t' (snd (getEventTenantId t w))"
  using assms by (simp add: getEventTenantId_def cache_coherent_getUniqueTenantId)

section \<open>Claims about the unique tenant id\<close>





text \<open>
  C3. When the deployment is not self-hosted, so that the hosting read from the environment is
  \<open>CLOUD\<close>, \<open>getEventTenantId t\<close> returns \<open>t\<close> itself and the state is the one it started in:
  nothing was read from or written to the cache or the store.
\<close>

theorem getEventTenantId_cloud:
  assumes "getHostingFromEnv w = CLOUD"
  shows "getEventTenantId t w = (t, w)"
  using assms by (simp add: getEventTenantId_def getHostingFromEnv_def split: if_splits)

theorem getEventTenantId_cloud_witness:
  "getHostingFromEnv world_cloud = CLOUD \<and>
   getEventTenantId ''default'' world_cloud = (''default'', world_cloud)"
proof -
  have h: "getHostingFromEnv world_cloud = CLOUD"
    by (simp add: getHostingFromEnv_def world_cloud_def world0_def)
  from getEventTenantId_cloud [OF h] h show ?thesis by simp
qed

text \<open>
  C9. For every tenant id \<open>t\<close> and every state, a second call of \<open>getUniqueTenantId t\<close> made in
  the state the first call left (no other writer, no eviction in between) returns what the
  first call returned; the same holds for \<open>getEventTenantId t\<close>, under either hosting.
\<close>

theorem unique_id_idempotent:
  "fst (getUniqueTenantId t (snd (getUniqueTenantId t w))) = fst (getUniqueTenantId t w) \<and>
   fst (getEventTenantId t (snd (getEventTenantId t w))) = fst (getEventTenantId t w)"
proof
  show u: "fst (getUniqueTenantId t (snd (getUniqueTenantId t w))) = fst (getUniqueTenantId t w)"
    by (simp add: getUniqueTenantId_hit [OF getUniqueTenantId_cached])
  show "fst (getEventTenantId t (snd (getEventTenantId t w))) = fst (getEventTenantId t w)"
    by (simp add: getEventTenantId_def getUniqueTenantId_env u)
qed

theorem unique_id_idempotent_witness:
  "fst (getUniqueTenantId ''default'' world0) = ''r_default'' \<and>
   fst (getUniqueTenantId ''default'' (snd (getUniqueTenantId ''default'' world0))) = ''r_default''"
proof -
  have r: "fst (getUniqueTenantId ''default'' world0) = ''r_default''"
    by (simp add: world0_def eval_defs)
  from unique_id_idempotent [of "''default''" world0] r show ?thesis
    by simp
qed

text \<open>
  C10. One call of \<open>getUniqueTenantId t\<close> adds to the documents handed to \<^verbatim>\<open>db.put\<close> either
  nothing or one document. It adds one only when the cache missed and the document read has no
  truthy \<^verbatim>\<open>uniqueTenantId\<close>; that document is the one read, with \<^verbatim>\<open>config.uniqueTenantId\<close>
  replaced by the returned string and every other property as read. When the field was set,
  nothing is added.
\<close>

theorem getUniqueTenantId_frame:
  "db_puts (io (snd (getUniqueTenantId t w))) =
     db_puts (io w) @
       (if cache w (t, UNIQUE_TENANT_ID) = None \<and>
           truthy (uniqueTenantId (config (store w t))) = None
        then [(t, (store w t)\<lparr>config := (config (store w t))
                     \<lparr>uniqueTenantId := Some (fst (getUniqueTenantId t w))\<rparr>\<rparr>)]
        else [])"
  by (cases w t rule: getUniqueTenantId_cases)
     (simp_all add: getUniqueTenantId_eqs Let_def db_puts_append)

theorem getUniqueTenantId_frame_witness:
  "db_puts (io (snd (getUniqueTenantId ''default'' world0))) =
     [(''default'', \<lparr>config = \<lparr>uniqueTenantId = Some ''r_default''\<rparr>\<rparr>)] \<and>
   db_puts (io (snd (getUniqueTenantId ''default'' world_set))) = []"
proof -
  have r: "fst (getUniqueTenantId ''default'' world0) = ''r_default''"
    by (simp add: world0_def eval_defs)
  from getUniqueTenantId_frame [of "''default''" world0] r
  have a: "db_puts (io (snd (getUniqueTenantId ''default'' world0))) =
     [(''default'', \<lparr>config = \<lparr>uniqueTenantId = Some ''r_default''\<rparr>\<rparr>)]"
    by (simp add: world0_def truthy_def)
  from getUniqueTenantId_frame [of "''default''" world_set]
  have b: "db_puts (io (snd (getUniqueTenantId ''default'' world_set))) = []"
    by (simp add: world_set_def world0_def truthy_def)
  from a b show ?thesis by simp
qed

section \<open>The identity producers: what each returns or emits\<close>

lemma kinds_distinct:
  "INSTALLATION \<noteq> TENANT" "INSTALLATION \<noteq> USER" "TENANT \<noteq> USER"
  "TENANT \<noteq> INSTALLATION" "USER \<noteq> INSTALLATION" "USER \<noteq> TENANT"
  by (simp_all add: INSTALLATION_def TENANT_def USER_def)

lemma getEventTenantId_frame:
  "env (snd (getEventTenantId t w)) = env w"
  "sink (snd (getEventTenantId t w)) = sink w"
  "install (snd (getEventTenantId t w)) = install w"
  "ctx_identity (snd (getEventTenantId t w)) = ctx_identity w"
  by (cases w t rule: getUniqueTenantId_cases;
      simp add: getEventTenantId_def getUniqueTenantId_hit getUniqueTenantId_miss_set
        getUniqueTenantId_miss_unset Let_def)+

lemma getEventTenantId_reads:
  "getHostingFromEnv (snd (getEventTenantId t w)) = getHostingFromEnv w"
  "getInstallationId (snd (getEventTenantId t w)) = getInstallationId w"
  by (simp_all add: getHostingFromEnv_def getInstallationId_def isAccountPortal_def
        getInstall_def getEventTenantId_frame)

lemma getCurrentIdentity_installation:
  assumes "ctx_identity w = Some c" and "ctx_type c = INSTALLATION"
  shows "getCurrentIdentity w =
           Inr ((base_identity (''$'' @ INSTALLATION @ ''_'' @ getInstallationId w) INSTALLATION
                   (getHostingFromEnv w))\<lparr>installationId := Some (getInstallationId w)\<rparr>, w)"
  using assms by (simp add: getCurrentIdentity_def formatDistinctId_def Let_def)

lemma getCurrentIdentity_tenant:
  assumes "ctx_identity w = None \<or> (\<exists>c. ctx_identity w = Some c \<and> ctx_type c = TENANT)"
  shows "getCurrentIdentity w =
           Inr ((base_identity (''$'' @ TENANT @ ''_'' @ fst (getEventTenantId (getTenantId w) w))
                   TENANT (getHostingFromEnv w))
                  \<lparr>installationId := Some (getInstallationId w),
                   tenantId := Some (fst (getEventTenantId (getTenantId w) w))\<rparr>,
                snd (getEventTenantId (getTenantId w) w))"
  using assms
  by (auto simp: getCurrentIdentity_def formatDistinctId_def Let_def kinds_distinct
        split_def getEventTenantId_reads)

lemma getCurrentIdentity_user:
  assumes "ctx_identity w = Some c" and "ctx_type c = USER"
  shows "getCurrentIdentity w =
           Inr ((base_identity (ctx_id c) USER
                   (case ctx_account c of Some account \<Rightarrow> acc_hosting account
                    | None \<Rightarrow> getHostingFromEnv w))
                  \<lparr>installationId := Some (getInstallationId w),
                   tenantId := Some (fst (getEventTenantId (getTenantId w) w))\<rparr>,
                snd (getEventTenantId (getTenantId w) w))"
  using assms
  by (cases "ctx_account c")
     (simp_all add: getCurrentIdentity_def Let_def kinds_distinct split_def
        getEventTenantId_reads)

lemma getCurrentIdentity_unknown:
  assumes "ctx_identity w = Some c"
    and "ctx_type c \<noteq> INSTALLATION" and "ctx_type c \<noteq> TENANT" and "ctx_type c \<noteq> USER"
  shows "getCurrentIdentity w = Inl (Error ''Unknown identity type'')"
  using assms by (simp add: getCurrentIdentity_def Let_def)

lemma identifyInstallationGroup_sink:
  "sink (identifyInstallationGroup inst ts w) =
     sink w @
       [SinkIdentifyGroup
          ((base_identity inst INSTALLATION (getHostingFromEnv w))
             \<lparr>version := Some (pkg_version w)\<rparr>) ts,
        SinkIdentify
          ((base_identity (''$'' @ INSTALLATION @ ''_'' @ inst) INSTALLATION (getHostingFromEnv w))
             \<lparr>version := Some (pkg_version w)\<rparr>) ts]"
  by (simp add: identifyInstallationGroup_def identify_def identifyGroup_def
        processors_identify_def processors_identifyGroup_def base_identity_def Let_def)

lemma identifyTenantGroup_sink:
  "sink (identifyTenantGroup t account ts w) =
     sink w @
       [SinkIdentifyGroup
          ((base_identity (fst (getEventTenantId t w)) TENANT
              (case account of Some a \<Rightarrow> acc_hosting a | None \<Rightarrow> getHostingFromEnv w))
             \<lparr>installationId := Some (getInstallationId w),
              profession := (case account of Some a \<Rightarrow> acc_profession a | None \<Rightarrow> None),
              companySize := (case account of Some a \<Rightarrow> acc_size a | None \<Rightarrow> None)\<rparr>) ts,
        SinkIdentify
          ((base_identity (''$'' @ TENANT @ ''_'' @ fst (getEventTenantId t w)) TENANT
              (case account of Some a \<Rightarrow> acc_hosting a | None \<Rightarrow> getHostingFromEnv w))
             \<lparr>installationId := Some (getInstallationId w),
              profession := (case account of Some a \<Rightarrow> acc_profession a | None \<Rightarrow> None),
              companySize := (case account of Some a \<Rightarrow> acc_size a | None \<Rightarrow> None)\<rparr>) ts]"
  by (cases account)
     (simp_all add: identifyTenantGroup_def identify_def identifyGroup_def
        processors_identify_def processors_identifyGroup_def base_identity_def Let_def
        split_def getEventTenantId_reads getEventTenantId_frame)

lemma identifyUser_sink:
  "sink (identifyUser user account ts w) =
     sink w @
       [SinkIdentify
          ((base_identity (user_id user) USER
              (case account of Some acc \<Rightarrow> acc_hosting acc | None \<Rightarrow> getHostingFromEnv w))
             \<lparr>installationId := Some (getInstallationId w),
              tenantId := Some (fst (getEventTenantId (user_tenantId user) w)),
              verified := Some (case account of
                                  Some acc \<Rightarrow> budibaseUserId acc = Some (user_id user) \<and> acc_verified acc
                                | None \<Rightarrow> False),
              accountHolder := Some (case account of
                                       Some acc \<Rightarrow> budibaseUserId acc = Some (user_id user)
                                     | None \<Rightarrow> False),
              providerType := user_providerType user,
              builder := Some (case user_builder user of Some r \<Rightarrow> role_global r | None \<Rightarrow> False),
              admin := Some (case user_admin user of Some r \<Rightarrow> role_global r | None \<Rightarrow> False)\<rparr>)
          ts]"
  by (cases account)
     (simp_all add: identifyUser_def identify_def processors_identify_def base_identity_def
        Let_def split_def getEventTenantId_reads getEventTenantId_frame)

lemma identifyAccount_sink:
  "sink (identifyAccount isSSOAccount isCloudAccount account w) =
     sink w @
       [SinkIdentify
          ((base_identity
              (if isCloudAccount account
               then (case truthy (budibaseUserId account) of Some u \<Rightarrow> u
                     | None \<Rightarrow> accountId account)
               else accountId account)
              USER (acc_hosting account))
             \<lparr>installationId := Some (getInstallationId w),
              tenantId := Some (acc_tenantId account),
              providerType := (if isSSOAccount account then acc_providerType account else None),
              verified := Some (acc_verified account),
              accountHolder := Some True\<rparr>)
          None]"
  by (simp add: identifyAccount_def identify_def processors_identify_def base_identity_def Let_def)

lemma prefixed_neq: "''$'' @ k @ ''_'' @ r \<noteq> r"
proof
  assume "''$'' @ k @ ''_'' @ r = r"
  then have "length (''$'' @ k @ ''_'' @ r) = length r" by simp
  then show False by simp
qed

lemma getCurrentIdentity_cases:
  obtains (absent) "ctx_identity w = None"
  | (installation) c where "ctx_identity w = Some c" "ctx_type c = INSTALLATION"
  | (tenant) c where "ctx_identity w = Some c" "ctx_type c = TENANT"
  | (user) c where "ctx_identity w = Some c" "ctx_type c = USER"
  | (unknown) c where "ctx_identity w = Some c"
      "ctx_type c \<noteq> INSTALLATION" "ctx_type c \<noteq> TENANT" "ctx_type c \<noteq> USER"
  by (cases "ctx_identity w") auto

lemma world_user_result:
  "getCurrentIdentity world_user =
     Inr ((base_identity ''us_1'' USER SELF)
            \<lparr>installationId := Some ''inst1'', tenantId := Some ''r_default''\<rparr>,
          snd (getEventTenantId ''default'' world_user))"
proof -
  have c: "ctx_identity world_user = Some \<lparr>ctx_id = ''us_1'', ctx_type = USER, ctx_account = None\<rparr>"
    by (simp add: world_user_def world0_def)
  have e: "fst (getEventTenantId ''default'' world_user) = ''r_default''"
    "getTenantId world_user = ''default''"
    "getHostingFromEnv world_user = SELF" "getInstallationId world_user = ''inst1''"
    by (simp_all add: world_user_def world0_def eval_defs)
  show ?thesis
    by (simp add: getCurrentIdentity_user [OF c] e)
qed

subsection \<open>The producers keep the cache a memo of the store\<close>

lemma cache_coherent_cong:
  assumes "cache w' = cache w" and "store w' = store w"
  shows "cache_coherent t w' = cache_coherent t w"
  using assms by (simp add: cache_coherent_def split: option.split)

lemma cache_coherent_getCurrentIdentity:
  assumes "cache_coherent t w" and "getCurrentIdentity w = Inr (i, w')"
  shows "cache_coherent t w'"
  using assms
  by (cases w rule: getCurrentIdentity_cases)
     (auto simp: getCurrentIdentity_installation getCurrentIdentity_tenant
        getCurrentIdentity_user getCurrentIdentity_unknown cache_coherent_getEventTenantId)

lemma identify_calls_frame:
  "cache (identifyInstallationGroup inst ts w) = cache w"
  "store (identifyInstallationGroup inst ts w) = store w"
  "cache (identifyTenantGroup t account ts w) = cache (snd (getEventTenantId t w))"
  "store (identifyTenantGroup t account ts w) = store (snd (getEventTenantId t w))"
  "cache (identifyUser user account ts w) = cache (snd (getEventTenantId (user_tenantId user) w))"
  "store (identifyUser user account ts w) = store (snd (getEventTenantId (user_tenantId user) w))"
  "cache (identifyAccount isSSOAccount isCloudAccount acc w) = cache w"
  "store (identifyAccount isSSOAccount isCloudAccount acc w) = store w"
  by (simp_all add: identifyInstallationGroup_def identifyTenantGroup_def identifyUser_def
        identifyAccount_def identify_def identifyGroup_def processors_identify_def
        processors_identifyGroup_def Let_def split_def)

lemma cache_coherent_identify_calls:
  assumes "cache_coherent t' w"
  shows "cache_coherent t' (identifyInstallationGroup inst ts w)"
    and "cache_coherent t' (identifyTenantGroup t account ts w)"
    and "cache_coherent t' (identifyUser user account ts w)"
    and "cache_coherent t' (identifyAccount isSSOAccount isCloudAccount acc w)"
  using assms cache_coherent_getEventTenantId [OF assms]
  by (simp_all add: cache_coherent_cong [OF identify_calls_frame(1,2)]
        cache_coherent_cong [OF identify_calls_frame(3,4)]
        cache_coherent_cong [OF identify_calls_frame(5,6)]
        cache_coherent_cong [OF identify_calls_frame(7,8)])

section \<open>Claims about the identity records\<close>



text \<open>
  C4. When the ambient identity context carries a kind that is none of \<open>INSTALLATION\<close>,
  \<open>TENANT\<close>, \<open>USER\<close>, \<open>getCurrentIdentity\<close> throws the error
  \<^verbatim>\<open>Error("Unknown identity type")\<close> (the spec's UnknownIdentityKind); nothing in the function
  catches it, and no identity record is returned.
\<close>

theorem getCurrentIdentity_unknown_kind:
  assumes "ctx_identity w = Some c"
    and "ctx_type c \<notin> {INSTALLATION, TENANT, USER}"
  shows "getCurrentIdentity w = Inl (Error ''Unknown identity type'') \<and>
         returned (getCurrentIdentity w) = None"
  using assms by (simp add: getCurrentIdentity_unknown)

theorem getCurrentIdentity_unknown_kind_witness:
  "ctx_identity world_device = Some \<lparr>ctx_id = ''dev_1'', ctx_type = ''device'', ctx_account = None\<rparr>
   \<and> ''device'' \<notin> {INSTALLATION, TENANT, USER}
   \<and> getCurrentIdentity world_device = Inl (Error ''Unknown identity type'')"
proof -
  have h: "ctx_identity world_device =
      Some \<lparr>ctx_id = ''dev_1'', ctx_type = ''device'', ctx_account = None\<rparr>"
    by (simp add: world_device_def world0_def)
  have k: "ctx_type \<lparr>ctx_id = ''dev_1'', ctx_type = ''device'', ctx_account = None\<rparr>
      \<notin> {INSTALLATION, TENANT, USER}"
    by (simp add: INSTALLATION_def TENANT_def USER_def)
  from getCurrentIdentity_unknown_kind [OF h k] h k show ?thesis by simp
qed

text \<open>
  C5. Every identity record the module produces has the id its kind asks for. A record returned
  by \<open>getCurrentIdentity\<close> of kind \<open>INSTALLATION\<close> or \<open>TENANT\<close> has the id \<^verbatim>\<open>$\<close>, kind,
  \<^verbatim>\<open>_\<close>, raw id (the installation id, or the event tenant id), which is never the raw id
  itself; one of kind \<open>USER\<close> has the \<^verbatim>\<open>_id\<close> of the user context, unprefixed. The second
  call made by \<open>identifyInstallationGroup\<close> and by \<open>identifyTenantGroup\<close> carries the
  formatted id of the group; \<open>identifyUser\<close> emits the user's \<^verbatim>\<open>_id\<close> and
  \<open>identifyAccount\<close> the account id or the linked user id, both unprefixed.
\<close>

theorem identity_id_by_kind:
  "(\<forall>i w'. getCurrentIdentity w = Inr (i, w') \<longrightarrow>
      (identity_type i = INSTALLATION \<longrightarrow>
         installationId i = Some (getInstallationId w) \<and>
         identity_id i = ''$'' @ INSTALLATION @ ''_'' @ getInstallationId w \<and>
         identity_id i \<noteq> getInstallationId w) \<and>
      (identity_type i = TENANT \<longrightarrow>
         tenantId i = Some (fst (getEventTenantId (getTenantId w) w)) \<and>
         identity_id i = ''$'' @ TENANT @ ''_'' @ fst (getEventTenantId (getTenantId w) w) \<and>
         identity_id i \<noteq> fst (getEventTenantId (getTenantId w) w)) \<and>
      (identity_type i = USER \<longrightarrow>
         (\<exists>c. ctx_identity w = Some c \<and> identity_id i = ctx_id c))) \<and>
   (\<exists>g i. sink (identifyInstallationGroup inst ts w)
             = sink w @ [SinkIdentifyGroup g ts, SinkIdentify i ts] \<and>
          identity_type i = INSTALLATION \<and>
          identity_id i = ''$'' @ INSTALLATION @ ''_'' @ inst \<and> identity_id i \<noteq> inst) \<and>
   (\<exists>g i. sink (identifyTenantGroup t account ts w)
             = sink w @ [SinkIdentifyGroup g ts, SinkIdentify i ts] \<and>
          identity_type i = TENANT \<and>
          identity_id i = ''$'' @ TENANT @ ''_'' @ fst (getEventTenantId t w) \<and>
          identity_id i \<noteq> fst (getEventTenantId t w)) \<and>
   (\<exists>i. sink (identifyUser user cloud_account ts w) = sink w @ [SinkIdentify i ts] \<and>
        identity_type i = USER \<and> identity_id i = user_id user) \<and>
   (\<exists>i. sink (identifyAccount isSSOAccount isCloudAccount acc w)
           = sink w @ [SinkIdentify i None] \<and>
        identity_type i = USER \<and>
        (identity_id i = accountId acc \<or> budibaseUserId acc = Some (identity_id i)))"
proof (intro conjI allI impI)
  fix i w'
  assume r: "getCurrentIdentity w = Inr (i, w')"
  {
    assume k: "identity_type i = INSTALLATION"
    from r k have i: "i = (base_identity (''$'' @ INSTALLATION @ ''_'' @ getInstallationId w)
        INSTALLATION (getHostingFromEnv w))\<lparr>installationId := Some (getInstallationId w)\<rparr>"
      by (cases w rule: getCurrentIdentity_cases)
         (auto simp: getCurrentIdentity_installation getCurrentIdentity_tenant
            getCurrentIdentity_user getCurrentIdentity_unknown base_identity_def kinds_distinct)
    show "installationId i = Some (getInstallationId w)"
      by (simp add: i base_identity_def)
    show "identity_id i = ''$'' @ INSTALLATION @ ''_'' @ getInstallationId w"
      by (simp add: i base_identity_def)
    then show "identity_id i \<noteq> getInstallationId w"
      by (simp only: prefixed_neq not_False_eq_True)
  }
  {
    assume k: "identity_type i = TENANT"
    let ?raw = "fst (getEventTenantId (getTenantId w) w)"
    from r k have i: "i = (base_identity (''$'' @ TENANT @ ''_'' @ ?raw) TENANT
        (getHostingFromEnv w))\<lparr>installationId := Some (getInstallationId w), tenantId := Some ?raw\<rparr>"
      by (cases w rule: getCurrentIdentity_cases)
         (auto simp: getCurrentIdentity_installation getCurrentIdentity_tenant
            getCurrentIdentity_user getCurrentIdentity_unknown base_identity_def kinds_distinct)
    show "tenantId i = Some ?raw"
      by (simp add: i base_identity_def)
    show "identity_id i = ''$'' @ TENANT @ ''_'' @ ?raw"
      by (simp add: i base_identity_def)
    then show "identity_id i \<noteq> ?raw"
      by (simp only: prefixed_neq not_False_eq_True)
  }
  {
    assume k: "identity_type i = USER"
    from r k show "\<exists>c. ctx_identity w = Some c \<and> identity_id i = ctx_id c"
      by (cases w rule: getCurrentIdentity_cases)
         (auto simp: getCurrentIdentity_installation getCurrentIdentity_tenant
            getCurrentIdentity_user getCurrentIdentity_unknown base_identity_def kinds_distinct)
  }
next
  show "\<exists>g i. sink (identifyInstallationGroup inst ts w)
             = sink w @ [SinkIdentifyGroup g ts, SinkIdentify i ts] \<and>
          identity_type i = INSTALLATION \<and>
          identity_id i = ''$'' @ INSTALLATION @ ''_'' @ inst \<and> identity_id i \<noteq> inst"
    using prefixed_neq [of INSTALLATION inst]
    by (simp add: identifyInstallationGroup_sink base_identity_def)
next
  show "\<exists>g i. sink (identifyTenantGroup t account ts w)
             = sink w @ [SinkIdentifyGroup g ts, SinkIdentify i ts] \<and>
          identity_type i = TENANT \<and>
          identity_id i = ''$'' @ TENANT @ ''_'' @ fst (getEventTenantId t w) \<and>
          identity_id i \<noteq> fst (getEventTenantId t w)"
    using prefixed_neq [of TENANT "fst (getEventTenantId t w)"]
    by (simp add: identifyTenantGroup_sink base_identity_def)
next
  show "\<exists>i. sink (identifyUser user cloud_account ts w) = sink w @ [SinkIdentify i ts] \<and>
        identity_type i = USER \<and> identity_id i = user_id user"
    by (simp add: identifyUser_sink base_identity_def)
next
  show "\<exists>i. sink (identifyAccount isSSOAccount isCloudAccount acc w)
           = sink w @ [SinkIdentify i None] \<and>
        identity_type i = USER \<and>
        (identity_id i = accountId acc \<or> budibaseUserId acc = Some (identity_id i))"
    by (auto simp: identifyAccount_sink base_identity_def truthy_Some split: option.splits)
qed

theorem identity_id_by_kind_witness:
  "(\<exists>i w'. getCurrentIdentity world0 = Inr (i, w') \<and> identity_type i = TENANT \<and>
      identity_id i = ''$tenant_r_default'') \<and>
   (\<exists>i w'. getCurrentIdentity world_user = Inr (i, w') \<and> identity_type i = USER \<and>
      identity_id i = ''us_1'')"
proof -
  obtain i0 w0 where r0: "getCurrentIdentity world0 = Inr (i0, w0)" and k0: "identity_type i0 = TENANT"
    by (simp add: getCurrentIdentity_tenant base_identity_def world0_def)
  have e0: "fst (getEventTenantId (getTenantId world0) world0) = ''r_default''"
    by (simp add: world0_def eval_defs)
  from identity_id_by_kind [of world0] r0 k0 e0
  have a: "identity_id i0 = ''$tenant_r_default''"
    by (simp add: TENANT_def)
  obtain i1 w1 where r1: "getCurrentIdentity world_user = Inr (i1, w1)"
    and k1: "identity_type i1 = USER"
    by (simp add: world_user_result base_identity_def)
  have c1: "ctx_identity world_user = Some \<lparr>ctx_id = ''us_1'', ctx_type = USER, ctx_account = None\<rparr>"
    by (simp add: world_user_def world0_def)
  from identity_id_by_kind [of world_user] r1 k1 c1
  have b: "identity_id i1 = ''us_1''"
    by auto
  from r0 k0 a r1 k1 b show ?thesis by blast
qed

text \<open>
  C6. For every tenant id, optional account and timestamp, \<open>identifyTenantGroup\<close> adds exactly
  two calls to those the event processors received: first \<^verbatim>\<open>identifyGroup\<close> with a group record
  of kind \<open>TENANT\<close> whose id is the unformatted event tenant id (the tenant id itself unless
  self-hosted, the unique tenant id then), and then \<^verbatim>\<open>identify\<close> with the same record except
  for its id, which is the formatted id of the group's id; hosting, company size and
  profession are those of the group record, taken from the account when there is one.
\<close>

theorem identifyTenantGroup_two_calls:
  "\<exists>g i. sink (identifyTenantGroup t account ts w)
            = sink w @ [SinkIdentifyGroup g ts, SinkIdentify i ts] \<and>
         identity_type g = TENANT \<and>
         identity_id g = fst (getEventTenantId t w) \<and>
         identity_id g = (if SELF_HOSTED (env w) then fst (getUniqueTenantId t w) else t) \<and>
         i = g\<lparr>identity_id := formatDistinctId (identity_id g) TENANT\<rparr> \<and>
         identity_id i = ''$'' @ TENANT @ ''_'' @ identity_id g \<and>
         hosting i = hosting g \<and> companySize i = companySize g \<and> profession i = profession g \<and>
         hosting g = (case account of Some a \<Rightarrow> acc_hosting a | None \<Rightarrow> getHostingFromEnv w) \<and>
         companySize g = (case account of Some a \<Rightarrow> acc_size a | None \<Rightarrow> None) \<and>
         profession g = (case account of Some a \<Rightarrow> acc_profession a | None \<Rightarrow> None)"
  by (simp add: identifyTenantGroup_sink base_identity_def formatDistinctId_def
        getEventTenantId_def)

theorem identifyTenantGroup_two_calls_witness:
  "map (identity_id \<circ> sink_identity) (sink (identifyTenantGroup ''default'' (Some account_cloud) None world_cloud))
     = [''default'', ''$tenant_default''] \<and>
   map (identity_id \<circ> sink_identity) (sink (identifyTenantGroup ''default'' None None world0))
     = [''r_default'', ''$tenant_r_default'']"
proof -
  obtain g i where
    s: "sink (identifyTenantGroup ''default'' (Some account_cloud) None world_cloud)
          = sink world_cloud @ [SinkIdentifyGroup g None, SinkIdentify i None]"
    and g: "identity_id g = (if SELF_HOSTED (env world_cloud)
              then fst (getUniqueTenantId ''default'' world_cloud) else ''default'')"
    and i: "identity_id i = ''$'' @ TENANT @ ''_'' @ identity_id g"
    using identifyTenantGroup_two_calls [of "''default''" "Some account_cloud" None world_cloud]
    by blast
  have sk: "sink world_cloud = []" "sink world0 = []" "\<not> SELF_HOSTED (env world_cloud)"
    by (simp_all add: world_cloud_def world0_def)
  have a: "map (identity_id \<circ> sink_identity)
       (sink (identifyTenantGroup ''default'' (Some account_cloud) None world_cloud))
     = [''default'', ''$tenant_default'']"
    using g i sk by (simp add: s TENANT_def)
  obtain g' i' where
    s': "sink (identifyTenantGroup ''default'' None None world0)
          = sink world0 @ [SinkIdentifyGroup g' None, SinkIdentify i' None]"
    and g': "identity_id g' = fst (getEventTenantId ''default'' world0)"
    and i': "identity_id i' = ''$'' @ TENANT @ ''_'' @ identity_id g'"
    using identifyTenantGroup_two_calls [of "''default''" None None world0]
    by blast
  have e: "fst (getEventTenantId ''default'' world0) = ''r_default''"
    by (simp add: world0_def eval_defs)
  have b: "map (identity_id \<circ> sink_identity) (sink (identifyTenantGroup ''default'' None None world0))
     = [''r_default'', ''$tenant_r_default'']"
    using g' i' e sk by (simp add: s' TENANT_def)
  from a b show ?thesis by simp
qed

text \<open>
  C7. The claim as stated, "if \<^verbatim>\<open>account.budibaseUserId\<close> is set then the emitted id is
  \<^verbatim>\<open>account.budibaseUserId\<close>", fails for an account that does not pass the \<^verbatim>\<open>isCloudAccount\<close>
  guard the source places around the substitution: a self-hosted account with a linked user
  id is identified by its account id.
\<close>

theorem identifyAccount_id_counterexample:
  "budibaseUserId account_self = Some ''us_1'' \<and>
   accountId account_self = ''acc_1'' \<and>
   sink (identifyAccount has_provider hosted_in_cloud account_self world0) =
     [SinkIdentify
        ((base_identity ''acc_1'' USER SELF)
           \<lparr>installationId := Some ''inst1'', tenantId := Some ''default'',
            verified := Some True, accountHolder := Some True\<rparr>) None]"
  by (simp add: identifyAccount_sink account_self_def hosted_in_cloud_def has_provider_def
        world0_def base_identity_def eval_defs)

text \<open>
  C7, as amended. For every account, \<open>identifyAccount\<close> emits one identity; when the account
  passes the \<^verbatim>\<open>isCloudAccount\<close> guard and its \<^verbatim>\<open>budibaseUserId\<close> is set (a non-empty string), the
  id is that \<^verbatim>\<open>budibaseUserId\<close>; when the account does not pass the guard, or has no
  \<^verbatim>\<open>budibaseUserId\<close>, the id is \<^verbatim>\<open>account.accountId\<close>.
\<close>

theorem identifyAccount_id_guarded:
  "\<exists>i. sink (identifyAccount isSSOAccount isCloudAccount account w)
          = sink w @ [SinkIdentify i None] \<and>
       (isCloudAccount account \<longrightarrow>
          (\<forall>u. budibaseUserId account = Some u \<and> u \<noteq> [] \<longrightarrow> identity_id i = u)) \<and>
       (\<not> isCloudAccount account \<longrightarrow> identity_id i = accountId account) \<and>
       (truthy (budibaseUserId account) = None \<longrightarrow> identity_id i = accountId account)"
  by (auto simp: identifyAccount_sink base_identity_def truthy_def split: option.splits)

theorem identifyAccount_id_guarded_witness:
  "hosted_in_cloud account_cloud \<and> budibaseUserId account_cloud = Some ''us_1'' \<and>
   map (identity_id \<circ> sink_identity)
     (sink (identifyAccount has_provider hosted_in_cloud account_cloud world0)) = [''us_1''] \<and>
   \<not> hosted_in_cloud account_self \<and>
   map (identity_id \<circ> sink_identity)
     (sink (identifyAccount has_provider hosted_in_cloud account_self world0)) = [''acc_1'']"
proof -
  have sk: "sink world0 = []"
    by (simp add: world0_def)
  have h: "hosted_in_cloud account_cloud" "budibaseUserId account_cloud = Some ''us_1''"
    "\<not> hosted_in_cloud account_self" "accountId account_self = ''acc_1''"
    by (simp_all add: hosted_in_cloud_def account_cloud_def account_self_def)
  obtain i where
    s: "sink (identifyAccount has_provider hosted_in_cloud account_cloud world0)
          = sink world0 @ [SinkIdentify i None]"
    and i: "hosted_in_cloud account_cloud \<longrightarrow>
          (\<forall>u. budibaseUserId account_cloud = Some u \<and> u \<noteq> [] \<longrightarrow> identity_id i = u)"
    using identifyAccount_id_guarded [of has_provider hosted_in_cloud account_cloud world0]
    by blast
  from i h have "identity_id i = ''us_1''" by simp
  then have a: "map (identity_id \<circ> sink_identity)
     (sink (identifyAccount has_provider hosted_in_cloud account_cloud world0)) = [''us_1'']"
    by (simp add: s sk)
  obtain j where
    s': "sink (identifyAccount has_provider hosted_in_cloud account_self world0)
          = sink world0 @ [SinkIdentify j None]"
    and j: "\<not> hosted_in_cloud account_self \<longrightarrow> identity_id j = accountId account_self"
    using identifyAccount_id_guarded [of has_provider hosted_in_cloud account_self world0]
    by blast
  from j h have "identity_id j = ''acc_1''" by simp
  then have b: "map (identity_id \<circ> sink_identity)
     (sink (identifyAccount has_provider hosted_in_cloud account_self world0)) = [''acc_1'']"
    by (simp add: s' sk)
  from h a b show ?thesis by simp
qed

text \<open>
  C8. The claim as stated fails for the record returned by the \<open>USER\<close> branch of
  \<open>getCurrentIdentity\<close>: it has kind \<open>USER\<close> and carries none of \<^verbatim>\<open>verified\<close>,
  \<^verbatim>\<open>accountHolder\<close>, \<^verbatim>\<open>builder\<close>, \<^verbatim>\<open>admin\<close>. It fails as well for the record emitted by
  \<open>identifyAccount\<close>, which has kind \<open>USER\<close> and neither \<^verbatim>\<open>builder\<close> nor \<^verbatim>\<open>admin\<close>.
\<close>

theorem user_identity_shape_counterexample:
  "map_option identity_type (returned (getCurrentIdentity world_user)) = Some USER \<and>
   map_option verified (returned (getCurrentIdentity world_user)) = Some None \<and>
   map_option accountHolder (returned (getCurrentIdentity world_user)) = Some None \<and>
   map_option builder (returned (getCurrentIdentity world_user)) = Some None \<and>
   map_option admin (returned (getCurrentIdentity world_user)) = Some None \<and>
   map (identity_type \<circ> sink_identity)
     (sink (identifyAccount has_provider hosted_in_cloud account_cloud world0)) = [USER] \<and>
   map (builder \<circ> sink_identity)
     (sink (identifyAccount has_provider hosted_in_cloud account_cloud world0)) = [None] \<and>
   map (admin \<circ> sink_identity)
     (sink (identifyAccount has_provider hosted_in_cloud account_cloud world0)) = [None]"
  by (simp add: world_user_result identifyAccount_sink base_identity_def world0_def)

text \<open>
  C8, as amended. The \<open>USER\<close> record emitted by \<open>identifyUser\<close> carries \<^verbatim>\<open>verified\<close>,
  \<^verbatim>\<open>accountHolder\<close>, \<^verbatim>\<open>builder\<close> and \<^verbatim>\<open>admin\<close> (and the user's \<^verbatim>\<open>providerType\<close>, when it has
  one) in addition to id, hosting, \<^verbatim>\<open>installationId\<close> and \<^verbatim>\<open>tenantId\<close>. The one emitted by
  \<open>identifyAccount\<close> carries \<^verbatim>\<open>verified\<close> and \<^verbatim>\<open>accountHolder\<close> but neither \<^verbatim>\<open>builder\<close> nor
  \<^verbatim>\<open>admin\<close>. The one returned by the \<open>USER\<close> branch of \<open>getCurrentIdentity\<close> carries only
  id, kind, hosting, \<^verbatim>\<open>installationId\<close> and \<^verbatim>\<open>tenantId\<close>: every other property is absent. None
  of the three carries a property of the group records (\<^verbatim>\<open>version\<close>, \<^verbatim>\<open>profession\<close>,
  \<^verbatim>\<open>companySize\<close>).
\<close>

theorem user_identity_shapes:
  "(\<exists>i v h b a. sink (identifyUser user account ts w) = sink w @ [SinkIdentify i ts] \<and>
      identity_type i = USER \<and> identity_id i = user_id user \<and>
      hosting i = (case account of Some acc \<Rightarrow> acc_hosting acc | None \<Rightarrow> getHostingFromEnv w) \<and>
      installationId i = Some (getInstallationId w) \<and>
      tenantId i = Some (fst (getEventTenantId (user_tenantId user) w)) \<and>
      verified i = Some v \<and> accountHolder i = Some h \<and>
      builder i = Some b \<and> admin i = Some a \<and>
      providerType i = user_providerType user \<and>
      version i = None \<and> profession i = None \<and> companySize i = None) \<and>
   (\<exists>i. sink (identifyAccount isSSOAccount isCloudAccount acc w)
          = sink w @ [SinkIdentify i None] \<and>
      identity_type i = USER \<and> hosting i = acc_hosting acc \<and>
      installationId i = Some (getInstallationId w) \<and> tenantId i = Some (acc_tenantId acc) \<and>
      verified i = Some (acc_verified acc) \<and> accountHolder i = Some True \<and>
      providerType i = (if isSSOAccount acc then acc_providerType acc else None) \<and>
      builder i = None \<and> admin i = None \<and>
      version i = None \<and> profession i = None \<and> companySize i = None) \<and>
   (\<forall>i w'. getCurrentIdentity w = Inr (i, w') \<and> identity_type i = USER \<longrightarrow>
      (\<exists>c. ctx_identity w = Some c \<and>
         i = \<lparr>identity_id = ctx_id c, identity_type = USER,
              hosting = (case ctx_account c of Some a \<Rightarrow> acc_hosting a
                         | None \<Rightarrow> getHostingFromEnv w),
              installationId = Some (getInstallationId w),
              tenantId = Some (fst (getEventTenantId (getTenantId w) w)),
              verified = None, accountHolder = None, providerType = None,
              builder = None, admin = None, version = None, profession = None,
              companySize = None\<rparr>) \<and>
      installationId i = Some (getInstallationId w) \<and>
      tenantId i = Some (fst (getEventTenantId (getTenantId w) w)) \<and>
      verified i = None \<and> accountHolder i = None \<and> providerType i = None \<and>
      builder i = None \<and> admin i = None \<and>
      version i = None \<and> profession i = None \<and> companySize i = None)"
proof (intro conjI)
  show "\<exists>i v h b a. sink (identifyUser user account ts w) = sink w @ [SinkIdentify i ts] \<and>
      identity_type i = USER \<and> identity_id i = user_id user \<and>
      hosting i = (case account of Some acc \<Rightarrow> acc_hosting acc | None \<Rightarrow> getHostingFromEnv w) \<and>
      installationId i = Some (getInstallationId w) \<and>
      tenantId i = Some (fst (getEventTenantId (user_tenantId user) w)) \<and>
      verified i = Some v \<and> accountHolder i = Some h \<and>
      builder i = Some b \<and> admin i = Some a \<and>
      providerType i = user_providerType user \<and>
      version i = None \<and> profession i = None \<and> companySize i = None"
    by (simp add: identifyUser_sink base_identity_def)
next
  show "\<exists>i. sink (identifyAccount isSSOAccount isCloudAccount acc w)
          = sink w @ [SinkIdentify i None] \<and>
      identity_type i = USER \<and> hosting i = acc_hosting acc \<and>
      installationId i = Some (getInstallationId w) \<and> tenantId i = Some (acc_tenantId acc) \<and>
      verified i = Some (acc_verified acc) \<and> accountHolder i = Some True \<and>
      providerType i = (if isSSOAccount acc then acc_providerType acc else None) \<and>
      builder i = None \<and> admin i = None \<and>
      version i = None \<and> profession i = None \<and> companySize i = None"
    by (simp add: identifyAccount_sink base_identity_def)
next
  show "\<forall>i w'. getCurrentIdentity w = Inr (i, w') \<and> identity_type i = USER \<longrightarrow>
      (\<exists>c. ctx_identity w = Some c \<and>
         i = \<lparr>identity_id = ctx_id c, identity_type = USER,
              hosting = (case ctx_account c of Some a \<Rightarrow> acc_hosting a
                         | None \<Rightarrow> getHostingFromEnv w),
              installationId = Some (getInstallationId w),
              tenantId = Some (fst (getEventTenantId (getTenantId w) w)),
              verified = None, accountHolder = None, providerType = None,
              builder = None, admin = None, version = None, profession = None,
              companySize = None\<rparr>) \<and>
      installationId i = Some (getInstallationId w) \<and>
      tenantId i = Some (fst (getEventTenantId (getTenantId w) w)) \<and>
      verified i = None \<and> accountHolder i = None \<and> providerType i = None \<and>
      builder i = None \<and> admin i = None \<and>
      version i = None \<and> profession i = None \<and> companySize i = None"
    by (cases w rule: getCurrentIdentity_cases)
       (auto simp: getCurrentIdentity_installation getCurrentIdentity_tenant
          getCurrentIdentity_user getCurrentIdentity_unknown base_identity_def kinds_distinct)
qed

theorem user_identity_shapes_witness:
  "\<exists>i w'. getCurrentIdentity world_user = Inr (i, w') \<and>
     i = \<lparr>identity_id = ''us_1'', identity_type = USER, hosting = SELF,
          installationId = Some ''inst1'', tenantId = Some ''r_default'',
          verified = None, accountHolder = None, providerType = None,
          builder = None, admin = None, version = None, profession = None,
          companySize = None\<rparr>"
proof -
  obtain i w' where r: "getCurrentIdentity world_user = Inr (i, w') \<and> identity_type i = USER"
    by (simp add: world_user_result base_identity_def)
  have e: "fst (getEventTenantId (getTenantId world_user) world_user) = ''r_default''"
    "getInstallationId world_user = ''inst1''" "getHostingFromEnv world_user = SELF"
    "ctx_identity world_user = Some \<lparr>ctx_id = ''us_1'', ctx_type = USER, ctx_account = None\<rparr>"
    by (simp_all add: world_user_def world0_def eval_defs)
  from user_identity_shapes [of user1 None None world_user has_provider hosted_in_cloud account_self]
  have "\<forall>i w'. getCurrentIdentity world_user = Inr (i, w') \<and> identity_type i = USER \<longrightarrow>
      (\<exists>c. ctx_identity world_user = Some c \<and>
         i = \<lparr>identity_id = ctx_id c, identity_type = USER,
              hosting = (case ctx_account c of Some a \<Rightarrow> acc_hosting a
                         | None \<Rightarrow> getHostingFromEnv world_user),
              installationId = Some (getInstallationId world_user),
              tenantId = Some (fst (getEventTenantId (getTenantId world_user) world_user)),
              verified = None, accountHolder = None, providerType = None,
              builder = None, admin = None, version = None, profession = None,
              companySize = None\<rparr>)"
    by blast
  with r e show ?thesis by auto
qed

end
